theory Spec2Isabelle
  imports Main
begin

section \<open>Errors\<close>

text \<open>
  Go error values that occur in the application. \<open>ErrNoRows\<close> is \<^verbatim>\<open>sql.ErrNoRows\<close>,
  \<open>ErrNoRecord\<close> is \<^verbatim>\<open>models.ErrNoRecord\<close> (internal/models/errors.go), \<open>ScanError i\<close>
  is the error of \<^verbatim>\<open>Scan\<close> when column \<open>i\<close> holds NULL and the destination is a plain
  Go value, \<open>NumError\<close> is the error of \<^verbatim>\<open>strconv.Atoi\<close>, \<open>Errorf s\<close> is
  \<^verbatim>\<open>fmt.Errorf\<close> with the formatted text \<open>s\<close>, \<open>DriverError\<close> is any failure reported by
  the database driver, and \<open>Wrap\<close> is an error that wraps another one.
\<close>

datatype error =
    ErrNoRows
  | ErrNoRecord
  | ScanError nat
  | NumError string
  | Errorf string
  | DriverError string
  | Wrap string error

text \<open>\<^verbatim>\<open>errors.Is(err, target)\<close>: \<open>err\<close> or an error it wraps is \<open>target\<close>.\<close>

fun errors_Is :: "error \<Rightarrow> error \<Rightarrow> bool" where
  "errors_Is (Wrap m e) target = (Wrap m e = target \<or> errors_Is e target)"
| "errors_Is e target = (e = target)"

text \<open>\<^verbatim>\<open>err.Error()\<close>.\<close>

fun error_message :: "error \<Rightarrow> string" where
  "error_message ErrNoRows = ''sql: no rows in result set''"
| "error_message ErrNoRecord = ''models: no matching record found''"
| "error_message (ScanError i) = ''sql: Scan error: NULL into a plain value''"
| "error_message (NumError m) = m"
| "error_message (Errorf m) = m"
| "error_message (DriverError m) = m"
| "error_message (Wrap m e) = m @ '': '' @ error_message e"

section \<open>The snippets table and the connection pool\<close>

text \<open>
  internal/models/snippets.go: \<^verbatim>\<open>type Snippet struct { ID int; Title string; Content string;
  Created time.Time; Expires time.Time }\<close>. Timestamps are microseconds on the store's
  time line.
\<close>

record Snippet =
  ID :: int
  Title :: string
  Content :: string
  Created :: int
  Expires :: int

text \<open>
  A row of the table \<^verbatim>\<open>snippets\<close>. The key column is never NULL; every other column is
  \<open>None\<close> when it holds NULL.
\<close>

record row =
  r_id :: int
  r_title :: "string option"
  r_content :: "string option"
  r_created :: "int option"
  r_expires :: "int option"

text \<open>
  What \<^verbatim>\<open>m.DB\<close> stands for: the table, the store's clock (\<^verbatim>\<open>CURRENT_TIMESTAMP\<close>,
  \<^verbatim>\<open>UTC_TIMESTAMP()\<close>), the next value of the key sequence, the failure the driver
  reports for a statement (\<open>conn_fault\<close>), the failure that interrupts a result set
  after so many rows have been delivered (\<open>iter_fault\<close>), the number of result sets
  that hold a pooled connection, and the number of statements sent so far.
\<close>

record store =
  table :: "row list"
  clock :: int
  next_id :: int
  conn_fault :: "error option"
  iter_fault :: "(nat \<times> error) option"
  open_rows :: nat
  statements :: nat

text \<open>\<^verbatim>\<open>sql.Rows\<close>: a cursor over the rows a statement selected.\<close>

record Rows =
  pending :: "row list"
  current :: "row option"
  rows_err :: "error option"
  closed :: bool

definition day :: int where
  "day = 86400000000"

text \<open>\<^verbatim>\<open>expires > CURRENT_TIMESTAMP\<close>; a comparison with NULL selects nothing.\<close>

definition live :: "store \<Rightarrow> row \<Rightarrow> bool" where
  "live st r = (case r_expires r of None \<Rightarrow> False | Some e \<Rightarrow> e > clock st)"

text \<open>
  \<^verbatim>\<open>DB.Query\<close>: the statement is sent; the driver either fails, or hands back a cursor
  over the selected rows \<open>sel\<close>, which holds a connection until it is closed.
\<close>

definition DB_Query :: "store \<Rightarrow> row list \<Rightarrow> (error + Rows) \<times> store" where
  "DB_Query st sel =
     (case conn_fault st of
        Some e \<Rightarrow> (Inl e, st\<lparr>statements := statements st + 1\<rparr>)
      | None \<Rightarrow>
          (Inr \<lparr>pending = (case iter_fault st of None \<Rightarrow> sel | Some (n, e) \<Rightarrow> take n sel),
                current = None,
                rows_err = (case iter_fault st of None \<Rightarrow> None | Some (n, e) \<Rightarrow> Some e),
                closed = False\<rparr>,
           st\<lparr>statements := statements st + 1, open_rows := open_rows st + 1\<rparr>))"

text \<open>
  \<^verbatim>\<open>rows.Next()\<close>: moves to the next row; when there is none the result set closes
  itself and frees the connection.
\<close>

definition rows_Next :: "Rows \<Rightarrow> store \<Rightarrow> bool \<times> Rows \<times> store" where
  "rows_Next rs st =
     (if closed rs then (False, rs, st)
      else (case pending rs of
              [] \<Rightarrow> (False, rs\<lparr>current := None, closed := True\<rparr>,
                     st\<lparr>open_rows := open_rows st - 1\<rparr>)
            | r # rest \<Rightarrow> (True, rs\<lparr>pending := rest, current := Some r\<rparr>, st)))"

text \<open>\<^verbatim>\<open>rows.Close()\<close> is idempotent.\<close>

definition rows_Close :: "Rows \<Rightarrow> store \<Rightarrow> Rows \<times> store" where
  "rows_Close rs st =
     (if closed rs then (rs, st)
      else (rs\<lparr>closed := True\<rparr>, st\<lparr>open_rows := open_rows st - 1\<rparr>))"

definition rows_Err :: "Rows \<Rightarrow> error option" where
  "rows_Err rs = rows_err rs"

text \<open>
  \<^verbatim>\<open>Scan(&s.ID, &s.Title, &s.Content, &s.Created, &s.Expires)\<close> on one row: a NULL column
  cannot be stored into a plain string or time value.
\<close>

definition scan_snippet :: "row \<Rightarrow> error + Snippet" where
  "scan_snippet r =
     (case r_title r of None \<Rightarrow> Inl (ScanError 1) | Some t \<Rightarrow>
     (case r_content r of None \<Rightarrow> Inl (ScanError 2) | Some c \<Rightarrow>
     (case r_created r of None \<Rightarrow> Inl (ScanError 3) | Some cr \<Rightarrow>
     (case r_expires r of None \<Rightarrow> Inl (ScanError 4) | Some ex \<Rightarrow>
        Inr \<lparr>ID = r_id r, Title = t, Content = c, Created = cr, Expires = ex\<rparr>))))"

text \<open>\<^verbatim>\<open>Scan(&id)\<close> on the row of \<^verbatim>\<open>RETURNING id\<close>.\<close>

definition scan_id :: "row \<Rightarrow> error + int" where
  "scan_id r = Inr (r_id r)"

definition rows_Scan :: "(row \<Rightarrow> error + 'a) \<Rightarrow> Rows \<Rightarrow> error + 'a" where
  "rows_Scan dest rs =
     (case current rs of
        None \<Rightarrow> Inl (DriverError ''sql: Scan called without calling Next'')
      | Some r \<Rightarrow> dest r)"

text \<open>
  \<^verbatim>\<open>DB.QueryRow(...).Scan(...)\<close>: the error of the query is kept until \<^verbatim>\<open>Scan\<close>; \<^verbatim>\<open>Scan\<close>
  reads the first row, reports \<^verbatim>\<open>sql.ErrNoRows\<close> when there is none, and always closes
  the result set.
\<close>

definition Row_Scan :: "(row \<Rightarrow> error + 'a) \<Rightarrow> (error + Rows) \<times> store \<Rightarrow> (error + 'a) \<times> store" where
  "Row_Scan dest q =
     (case q of
        (Inl e, st) \<Rightarrow> (Inl e, st)
      | (Inr rs, st) \<Rightarrow>
          (case rows_Next rs st of
             (False, rs1, st1) \<Rightarrow>
               (case rows_Err rs1 of
                  Some e \<Rightarrow> (Inl e, snd (rows_Close rs1 st1))
                | None \<Rightarrow> (Inl ErrNoRows, snd (rows_Close rs1 st1)))
           | (True, rs1, st1) \<Rightarrow> (rows_Scan dest rs1, snd (rows_Close rs1 st1))))"

section \<open>The persistence model (internal/models/snippets.go)\<close>

text \<open>
  \<^verbatim>\<open>INSERT INTO snippets (title, content, created, expires)
  VALUES($1, $2, CURRENT_TIMESTAMP, CURRENT_TIMESTAMP + INTERVAL '1 day' * $3) RETURNING id\<close>
\<close>

definition inserted_row :: "store \<Rightarrow> string \<Rightarrow> string \<Rightarrow> int \<Rightarrow> row" where
  "inserted_row st title content expires =
     \<lparr>r_id = next_id st, r_title = Some title, r_content = Some content,
      r_created = Some (clock st), r_expires = Some (clock st + day * expires)\<rparr>"

definition Insert :: "store \<Rightarrow> string \<Rightarrow> string \<Rightarrow> int \<Rightarrow> (error + int) \<times> store" where
  "Insert st title content expires =
     (let new = inserted_row st title content expires;
          st0 = (case conn_fault st of
                   Some e \<Rightarrow> st
                 | None \<Rightarrow> st\<lparr>table := table st @ [new], next_id := next_id st + 1\<rparr>)
      in case Row_Scan scan_id (DB_Query st0 [new]) of
           (Inl err, st1) \<Rightarrow> (Inl err, st1)
         | (Inr new_id, st1) \<Rightarrow> (Inr new_id, st1))"

text \<open>
  \<^verbatim>\<open>SELECT id, title, content, created, expires FROM snippets
  WHERE expires > CURRENT_TIMESTAMP AND id = $1\<close>
\<close>

definition select_get :: "store \<Rightarrow> int \<Rightarrow> row list" where
  "select_get st sid = filter (\<lambda>r. live st r \<and> r_id r = sid) (table st)"

definition Get :: "store \<Rightarrow> int \<Rightarrow> (error + Snippet) \<times> store" where
  "Get st sid =
     (case Row_Scan scan_snippet (DB_Query st (select_get st sid)) of
        (Inl err, st1) \<Rightarrow>
          (if errors_Is err ErrNoRows then (Inl ErrNoRecord, st1) else (Inl err, st1))
      | (Inr s, st1) \<Rightarrow> (Inr s, st1))"

text \<open>
  \<^verbatim>\<open>SELECT id, title, content, created, expires FROM snippets
  WHERE expires > CURRENT_TIMESTAMP ORDER BY id DESC LIMIT 10\<close>
\<close>

definition select_latest :: "store \<Rightarrow> row list" where
  "select_latest st = take 10 (sort_key (\<lambda>r. - r_id r) (filter (live st) (table st)))"

text \<open>
  The loop \<^verbatim>\<open>for rows.Next() { ... }\<close> of \<^verbatim>\<open>Latest\<close>: the first component is the error
  of a failed \<^verbatim>\<open>rows.Scan\<close>, on which the method returns from inside the loop.
\<close>

function Latest_loop :: "Rows \<Rightarrow> store \<Rightarrow> Snippet list \<Rightarrow> error option \<times> Snippet list \<times> Rows \<times> store" where
  "Latest_loop rs st snippets =
     (case rows_Next rs st of
        (False, rs1, st1) \<Rightarrow> (None, snippets, rs1, st1)
      | (True, rs1, st1) \<Rightarrow>
          (case rows_Scan scan_snippet rs1 of
             Inl err \<Rightarrow> (Some err, snippets, rs1, st1)
           | Inr s \<Rightarrow> Latest_loop rs1 st1 (snippets @ [s])))"
  by pat_completeness auto
termination
  by (relation "measure (\<lambda>(rs, st, snippets). length (pending rs))")
     (auto simp: rows_Next_def split: if_splits list.splits)

declare Latest_loop.simps [simp del]

text \<open>
  \<^verbatim>\<open>Latest\<close>: \<^verbatim>\<open>defer rows.Close()\<close> is registered after the check of the query's error,
  so it runs on every return after that point and not on the return before it.
\<close>

definition Latest :: "store \<Rightarrow> (error + Snippet list) \<times> store" where
  "Latest st =
     (case DB_Query st (select_latest st) of
        (Inl err, st1) \<Rightarrow> (Inl err, st1)
      | (Inr rows, st1) \<Rightarrow>
          (case Latest_loop rows st1 [] of
             (Some err, snippets, rs2, st2) \<Rightarrow> (Inl err, snd (rows_Close rs2 st2))
           | (None, snippets, rs2, st2) \<Rightarrow>
               (case rows_Err rs2 of
                  Some err \<Rightarrow> (Inl err, snd (rows_Close rs2 st2))
                | None \<Rightarrow> (Inr snippets, snd (rows_Close rs2 st2)))))"

text \<open>Time passing on the store's clock between two statements.\<close>

definition advance :: "int \<Rightarrow> store \<Rightarrow> store" where
  "advance d st = st\<lparr>clock := clock st + d\<rparr>"

section \<open>Requests, responses and the log\<close>

text \<open>
  Everything a handler does to its \<^verbatim>\<open>http.ResponseWriter\<close> and to the logger is recorded
  in order of execution: a call of the \<^verbatim>\<open>slog\<close> logger, \<^verbatim>\<open>w.Header().Set(k, v)\<close>,
  \<^verbatim>\<open>w.WriteHeader(code)\<close> and \<^verbatim>\<open>w.Write(bytes)\<close>. The execution of the \<^verbatim>\<open>defer\<close>
  statement of \<^verbatim>\<open>recoverPanic\<close>, which installs the function that calls \<^verbatim>\<open>recover()\<close>, is
  recorded as well (\<open>DeferRecover\<close>): from that moment on the guard is in place.
\<close>

datatype level = LevelInfo | LevelError

datatype event =
    Log level string "(string \<times> string) list"
  | SetHeader string string
  | WriteHeader nat
  | Write string
  | DeferRecover

text \<open>The fields of \<^verbatim>\<open>*http.Request\<close> that the application reads.\<close>

record request =
  Method :: string
  RequestURI :: string
  RemoteAddr :: string
  Proto :: string
  path_values :: "(string \<times> string) list"

text \<open>
  The state a handler runs in: the calls made so far on the response writer and the
  logger, the store behind \<^verbatim>\<open>app.snippets\<close>, what \<^verbatim>\<open>debug.Stack()\<close> returns, and the
  panic values raised in goroutines started with \<^verbatim>\<open>go\<close> while handling requests.
\<close>

record world =
  trace :: "event list"
  db :: store
  stack :: string
  goroutine_panics :: "string list"

text \<open>
  \<^verbatim>\<open>ServeHTTP(w, r)\<close>: the second component is the value of a panic that left the
  handler, \<open>None\<close> when it returned.
\<close>

type_synonym handler = "request \<Rightarrow> world \<Rightarrow> world \<times> string option"

text \<open>
  What the client is sent, by the rules of net/http: the header map can be changed until
  the response is committed; the first \<^verbatim>\<open>WriteHeader\<close> commits the status with the header
  map of that moment and later calls are ignored; a \<^verbatim>\<open>Write\<close> on an uncommitted response
  commits status 200 first.
\<close>

record response =
  hdr :: "string \<rightharpoonup> string"
  sent :: "(nat \<times> (string \<rightharpoonup> string)) option"
  body :: string

definition fresh_response :: response where
  "fresh_response = \<lparr>hdr = Map.empty, sent = None, body = []\<rparr>"

fun apply_event :: "event \<Rightarrow> response \<Rightarrow> response" where
  "apply_event (Log l m attrs) resp = resp"
| "apply_event (SetHeader k v) resp = resp\<lparr>hdr := (hdr resp)(k \<mapsto> v)\<rparr>"
| "apply_event (WriteHeader code) resp =
     (case sent resp of None \<Rightarrow> resp\<lparr>sent := Some (code, hdr resp)\<rparr> | Some c \<Rightarrow> resp)"
| "apply_event (Write bytes) resp =
     (case sent resp of
        None \<Rightarrow> resp\<lparr>sent := Some (200, hdr resp), body := body resp @ bytes\<rparr>
      | Some c \<Rightarrow> resp\<lparr>body := body resp @ bytes\<rparr>)"
| "apply_event DeferRecover resp = resp"

definition client_view :: "event list \<Rightarrow> response" where
  "client_view t = foldl (\<lambda>resp e. apply_event e resp) fresh_response t"

definition status_code :: "response \<Rightarrow> nat option" where
  "status_code resp = map_option fst (sent resp)"

definition sent_header :: "response \<Rightarrow> string \<Rightarrow> string option" where
  "sent_header resp k = (case sent resp of None \<Rightarrow> None | Some (code, h) \<Rightarrow> h k)"

definition emit :: "event list \<Rightarrow> world \<Rightarrow> world" where
  "emit es w = w\<lparr>trace := trace w @ es\<rparr>"

definition logger_Info :: "string \<Rightarrow> (string \<times> string) list \<Rightarrow> world \<Rightarrow> world" where
  "logger_Info msg attrs w = emit [Log LevelInfo msg attrs] w"

definition logger_Error :: "string \<Rightarrow> (string \<times> string) list \<Rightarrow> world \<Rightarrow> world" where
  "logger_Error msg attrs w = emit [Log LevelError msg attrs] w"

definition Header_Set :: "string \<Rightarrow> string \<Rightarrow> world \<Rightarrow> world" where
  "Header_Set k v w = emit [SetHeader k v] w"

definition w_WriteHeader :: "nat \<Rightarrow> world \<Rightarrow> world" where
  "w_WriteHeader code w = emit [WriteHeader code] w"

definition w_Write :: "string \<Rightarrow> world \<Rightarrow> world" where
  "w_Write bytes w = emit [Write bytes] w"

text \<open>\<^verbatim>\<open>http.StatusText\<close> for the status codes the application uses.\<close>

definition StatusText :: "nat \<Rightarrow> string" where
  "StatusText code =
     (if code = 200 then ''OK''
      else if code = 201 then ''Created''
      else if code = 303 then ''See Other''
      else if code = 400 then ''Bad Request''
      else if code = 404 then ''Not Found''
      else if code = 405 then ''Method Not Allowed''
      else if code = 422 then ''Unprocessable Entity''
      else if code = 500 then ''Internal Server Error''
      else [])"

text \<open>
  \<^verbatim>\<open>http.Error(w, error, code)\<close>: sets the two headers, writes the status, and prints the
  text followed by a newline. \<^verbatim>\<open>http.NotFound(w, r)\<close> is
  \<^verbatim>\<open>Error(w, "404 page not found", StatusNotFound)\<close>.
\<close>

definition http_Error :: "string \<Rightarrow> nat \<Rightarrow> world \<Rightarrow> world" where
  "http_Error msg code w =
     w_Write (msg @ [CHR 0x0A])
       (w_WriteHeader code
         (Header_Set ''X-Content-Type-Options'' ''nosniff''
           (Header_Set ''Content-Type'' ''text/plain; charset=utf-8'' w)))"

definition http_NotFound :: "request \<Rightarrow> world \<Rightarrow> world" where
  "http_NotFound r w = http_Error ''404 page not found'' 404 w"

text \<open>\<^verbatim>\<open>r.PathValue(name)\<close>: the empty string when the pattern has no such wildcard.\<close>

definition PathValue :: "request \<Rightarrow> string \<Rightarrow> string" where
  "PathValue r name = (case map_of (path_values r) name of None \<Rightarrow> [] | Some v \<Rightarrow> v)"

text \<open>
  \<^verbatim>\<open>strconv.Atoi\<close>: an optional sign, then one or more decimal digits, and a value that
  fits Go's 64-bit \<^verbatim>\<open>int\<close>.
\<close>

definition is_digit :: "char \<Rightarrow> bool" where
  "is_digit c = ((48::nat) \<le> of_char c \<and> of_char c \<le> (57::nat))"

definition digits_value :: "string \<Rightarrow> int" where
  "digits_value ds = foldl (\<lambda>a c. a * 10 + (int (of_char c) - 48)) 0 ds"

definition Atoi :: "string \<Rightarrow> error + int" where
  "Atoi s =
     (let neg = (s \<noteq> [] \<and> hd s = CHR ''-'');
          ds = (if s \<noteq> [] \<and> (hd s = CHR ''+'' \<or> hd s = CHR ''-'') then tl s else s)
      in if ds = [] \<or> \<not> list_all is_digit ds then Inl (NumError ''invalid syntax'')
         else (let n = digits_value ds; v = (if neg then - n else n)
               in if v < - (2 ^ 63) \<or> 2 ^ 63 - 1 < v
                  then Inl (NumError ''value out of range'')
                  else Inr v))"

section \<open>The application (cmd/web)\<close>

text \<open>
  cmd/web/templates.go: \<^verbatim>\<open>type templateData struct { Snippet models.Snippet;
  Snippets []models.Snippet }\<close>.
\<close>

record templateData =
  td_Snippet :: Snippet
  td_Snippets :: "Snippet list"

text \<open>
  A parsed template set (\<^verbatim>\<open>*template.Template\<close>) is what its execution does: for the name
  of the template to run and the payload, the bytes it writes to its writer before it
  stops, and the error it stops with, if any.
\<close>

type_synonym template = "string \<Rightarrow> templateData \<Rightarrow> string \<times> error option"

text \<open>\<^verbatim>\<open>ts.ExecuteTemplate(buf, name, data)\<close>, returning the buffer and the error.\<close>

definition ExecuteTemplate :: "template \<Rightarrow> string \<Rightarrow> string \<Rightarrow> templateData \<Rightarrow> string \<times> error option" where
  "ExecuteTemplate ts buf name data = (buf @ fst (ts name data), snd (ts name data))"

text \<open>
  cmd/web/main.go: \<^verbatim>\<open>type application struct\<close>. The logger and the snippet model are
  handles on the log and the store of the \<^typ>\<open>world\<close>; the template cache is the
  read-only map built at start-up.
\<close>

record application =
  templateCache :: "string \<rightharpoonup> template"

subsection \<open>cmd/web/helpers.go\<close>

definition serverError :: "application \<Rightarrow> request \<Rightarrow> error \<Rightarrow> world \<Rightarrow> world" where
  "serverError app r err w =
     (let method = Method r;
          uri = RequestURI r;
          tr = stack w
      in http_Error (StatusText 500) 500
           (logger_Error (error_message err)
              [(''method'', method), (''uri'', uri), (''trace'', tr)] w))"

definition clientError :: "application \<Rightarrow> nat \<Rightarrow> world \<Rightarrow> world" where
  "clientError app status w = http_Error (StatusText status) status w"

text \<open>\<^verbatim>\<open>buf.WriteTo(w)\<close> calls \<^verbatim>\<open>w.Write\<close> only when the buffer is not empty.\<close>

definition buf_WriteTo :: "string \<Rightarrow> world \<Rightarrow> world" where
  "buf_WriteTo buf w = (if buf = [] then w else w_Write buf w)"

definition render :: "application \<Rightarrow> request \<Rightarrow> nat \<Rightarrow> string \<Rightarrow> templateData \<Rightarrow> world \<Rightarrow> world" where
  "render app r status page data w =
     (case templateCache app page of
        None \<Rightarrow>
          serverError app r (Errorf (''the template '' @ page @ '' does not exist'')) w
      | Some ts \<Rightarrow>
          (case ExecuteTemplate ts [] ''base'' data of
             (buf, Some err) \<Rightarrow> serverError app r err w
           | (buf, None) \<Rightarrow> buf_WriteTo buf (w_WriteHeader status w)))"

subsection \<open>cmd/web/middleware.go and cmd/web/routes.go\<close>

text \<open>
  \<^verbatim>\<open>commonHeaders\<close> sets \<^verbatim>\<open>Server: Go\<close>; the headers that the source leaves out after it
  (\<^verbatim>\<open>...\<close>) are left out here too.
\<close>

definition commonHeaders :: "handler \<Rightarrow> handler" where
  "commonHeaders next r w = next r (Header_Set ''Server'' ''Go'' w)"

definition logRequest :: "application \<Rightarrow> handler \<Rightarrow> handler" where
  "logRequest app next r w =
     (let ip = RemoteAddr r;
          proto = Proto r;
          method = Method r;
          uri = RequestURI r
      in next r (logger_Info ''received request''
                   [(''ip'', ip), (''proto'', proto), (''method'', method), (''uri'', uri)] w))"

text \<open>
  The first statement of the handler is \<^verbatim>\<open>defer func() { ... }()\<close>; then comes
  \<^verbatim>\<open>next.ServeHTTP(w, r)\<close>. The deferred function runs when \<^verbatim>\<open>next.ServeHTTP\<close> returns or
  panics; \<^verbatim>\<open>recover()\<close> yields the value of a panic of the goroutine that runs the
  middleware, and the handler then returns normally. Panics of other goroutines are not
  seen by \<^verbatim>\<open>recover()\<close>.
\<close>

definition defer_recover :: "world \<Rightarrow> world" where
  "defer_recover w = emit [DeferRecover] w"

definition recoverPanic :: "application \<Rightarrow> handler \<Rightarrow> handler" where
  "recoverPanic app next r w =
     (case next r (defer_recover w) of
        (w1, None) \<Rightarrow> (w1, None)
      | (w1, Some err) \<Rightarrow>
          (serverError app r (Errorf err) (Header_Set ''Connection'' ''close'' w1), None))"

text \<open>
  \<^verbatim>\<open>routes()\<close>: \<open>mux\<close> is the \<^verbatim>\<open>http.ServeMux\<close> with the application's routes
  registered.
\<close>

definition routes :: "application \<Rightarrow> handler \<Rightarrow> handler" where
  "routes app mux = recoverPanic app (logRequest app (commonHeaders mux))"

subsection \<open>cmd/web/handlers.go\<close>

text \<open>
  \<^verbatim>\<open>snippetView\<close>; \<open>Sprintf\<close> is the text \<^verbatim>\<open>fmt\<close> prints for \<^verbatim>\<open>"%+v"\<close> and a snippet.
\<close>

definition snippetView :: "(Snippet \<Rightarrow> string) \<Rightarrow> application \<Rightarrow> handler" where
  "snippetView Sprintf app r w =
     (case Atoi (PathValue r ''id'') of
        Inl err \<Rightarrow> (http_NotFound r w, None)
      | Inr sid \<Rightarrow>
          if sid < 1 then (http_NotFound r w, None)
          else (case Get (db w) sid of
                  (Inl err, st) \<Rightarrow>
                    if errors_Is err ErrNoRecord then (http_NotFound r (w\<lparr>db := st\<rparr>), None)
                    else (serverError app r err (w\<lparr>db := st\<rparr>), None)
                | (Inr snippet, st) \<Rightarrow> (w_Write (Sprintf snippet) (w\<lparr>db := st\<rparr>), None)))"

section \<open>Example inputs\<close>

definition ex_row :: "int \<Rightarrow> string \<Rightarrow> int \<Rightarrow> row" where
  "ex_row i t e =
     \<lparr>r_id = i, r_title = Some t, r_content = Some ''text'', r_created = Some 0,
      r_expires = Some e\<rparr>"

text \<open>Snippets 1 and 3 are live at time 100, snippet 2 expired at time 50.\<close>

definition ex_store :: store where
  "ex_store =
     \<lparr>table = [ex_row 1 ''a'' 500, ex_row 2 ''b'' 50, ex_row 3 ''c'' 900],
      clock = 100, next_id = 4, conn_fault = None, iter_fault = None,
      open_rows = 0, statements = 0\<rparr>"

text \<open>Twelve live snippets.\<close>

definition ex_big :: store where
  "ex_big = ex_store\<lparr>table := map (\<lambda>i. ex_row i ''t'' 500) [1, 2, 3, 4, 5, 6, 7, 8, 9, 10, 11, 12]\<rparr>"

text \<open>A live snippet whose title is NULL.\<close>

definition ex_null :: store where
  "ex_null =
     ex_store\<lparr>table := [\<lparr>r_id = 1, r_title = None, r_content = Some ''text'',
                           r_created = Some 0, r_expires = Some 500\<rparr>]\<rparr>"

definition ex_request :: request where
  "ex_request =
     \<lparr>Method = ''GET'', RequestURI = ''/snippet/view/1'', RemoteAddr = ''127.0.0.1:5000'',
      Proto = ''HTTP/1.1'', path_values = [(''id'', ''1'')]\<rparr>"

definition ex_world :: world where
  "ex_world = \<lparr>trace = [], db = ex_store, stack = ''goroutine 1 [running]'', goroutine_panics = []\<rparr>"

definition ex_data :: templateData where
  "ex_data =
     \<lparr>td_Snippet = \<lparr>ID = 1, Title = ''a'', Content = ''text'', Created = 0, Expires = 500\<rparr>,
      td_Snippets = []\<rparr>"

text \<open>A page that renders, and a page that fails after it has written some markup.\<close>

definition ex_page_ok :: template where
  "ex_page_ok name data = (''<h1>Snippetbox</h1>'', None)"

definition ex_page_bad :: template where
  "ex_page_bad name data = (''<div class=snippet>'', Some (Errorf ''error calling len''))"

definition ex_app :: application where
  "ex_app = \<lparr>templateCache = [''home.tmpl'' \<mapsto> ex_page_ok, ''view.tmpl'' \<mapsto> ex_page_bad]\<rparr>"

text \<open>A router whose handler answers, and one whose handler panics.\<close>

definition ex_mux :: handler where
  "ex_mux r w = (w_Write ''OK'' w, None)"

definition ex_panic :: handler where
  "ex_panic r w = (w, Some ''index out of range'')"

text \<open>A handler that writes its answer and then panics.\<close>

definition ex_write_panic :: handler where
  "ex_write_panic r w = (w_Write ''OK'' w, Some ''index out of range'')"

text \<open>
  A handler that answers and returns, while a goroutine that it has started panics.
\<close>

definition ex_background :: handler where
  "ex_background r w =
     (w_Write ''OK'' (w\<lparr>goroutine_panics := goroutine_panics w @ [''background failure'']\<rparr>), None)"

section \<open>Facts about the store\<close>

lemma rows_Close_after_loop:
  "\<not> closed rs \<Longrightarrow> Latest_loop rs st acc = (e, xs, rs', st') \<Longrightarrow>
   snd (rows_Close rs' st') = st\<lparr>open_rows := open_rows st - 1\<rparr>"
proof (induction rs st acc rule: Latest_loop.induct)
  case (1 rs st snippets)
  show ?case
  proof (cases "pending rs")
    case Nil
    with "1.prems" show ?thesis
      by (auto simp add: Latest_loop.simps [of rs] rows_Next_def rows_Close_def)
  next
    case (Cons r rest)
    let ?rs1 = "rs\<lparr>pending := rest, current := Some r\<rparr>"
    have nx: "rows_Next rs st = (True, ?rs1, st)"
      using Cons "1.prems"(1) by (simp add: rows_Next_def)
    show ?thesis
    proof (cases "scan_snippet r")
      case (Inl err)
      with nx "1.prems" show ?thesis
        by (auto simp add: Latest_loop.simps [of rs] rows_Scan_def rows_Close_def)
    next
      case (Inr s)
      have sc: "rows_Scan scan_snippet ?rs1 = Inr s"
        using Inr by (simp add: rows_Scan_def)
      have "Latest_loop ?rs1 st (snippets @ [s]) = (e, xs, rs', st')"
        using "1.prems"(2) nx sc by (simp add: Latest_loop.simps [of rs])
      moreover have "\<not> closed ?rs1" using "1.prems"(1) by simp
      ultimately show ?thesis
        using "1.IH" [OF nx [symmetric] refl refl sc] by simp
    qed
  qed
qed

lemma loop_result:
  "\<not> closed rs \<Longrightarrow> Latest_loop rs st acc = (None, xs, rs', st') \<Longrightarrow>
   map Inr xs = map Inr acc @ map scan_snippet (pending rs) \<and> rows_err rs' = rows_err rs"
proof (induction rs st acc rule: Latest_loop.induct)
  case (1 rs st snippets)
  show ?case
  proof (cases "pending rs")
    case Nil
    with "1.prems" show ?thesis
      by (auto simp add: Latest_loop.simps [of rs] rows_Next_def)
  next
    case (Cons r rest)
    let ?rs1 = "rs\<lparr>pending := rest, current := Some r\<rparr>"
    have nx: "rows_Next rs st = (True, ?rs1, st)"
      using Cons "1.prems"(1) by (simp add: rows_Next_def)
    show ?thesis
    proof (cases "scan_snippet r")
      case (Inl err)
      with nx "1.prems" show ?thesis
        by (simp add: Latest_loop.simps [of rs] rows_Scan_def)
    next
      case (Inr s)
      have sc: "rows_Scan scan_snippet ?rs1 = Inr s"
        using Inr by (simp add: rows_Scan_def)
      have "Latest_loop ?rs1 st (snippets @ [s]) = (None, xs, rs', st')"
        using "1.prems"(2) nx sc by (simp add: Latest_loop.simps [of rs])
      moreover have "\<not> closed ?rs1" using "1.prems"(1) by simp
      ultimately show ?thesis
        using "1.IH" [OF nx [symmetric] refl refl sc] Cons Inr by simp
    qed
  qed
qed

lemma DB_Query_ok:
  "conn_fault st = None \<Longrightarrow>
   \<exists>rows. DB_Query st sel =
            (Inr rows, st\<lparr>statements := statements st + 1, open_rows := open_rows st + 1\<rparr>)
        \<and> \<not> closed rows
        \<and> pending rows = (case iter_fault st of None \<Rightarrow> sel | Some (n, e) \<Rightarrow> take n sel)
        \<and> rows_err rows = (case iter_fault st of None \<Rightarrow> None | Some (n, e) \<Rightarrow> Some e)"
  by (simp add: DB_Query_def)

lemma Latest_leaves_store:
  "snd (Latest st) = st\<lparr>statements := statements st + 1\<rparr>"
proof (cases "conn_fault st")
  case (Some e)
  then show ?thesis by (simp add: Latest_def DB_Query_def)
next
  case None
  let ?st1 = "st\<lparr>statements := statements st + 1, open_rows := open_rows st + 1\<rparr>"
  from DB_Query_ok [OF None, of "select_latest st"]
  obtain rows where q: "DB_Query st (select_latest st) = (Inr rows, ?st1)"
    and nc: "\<not> closed rows" by blast
  obtain e xs rs2 st2 where l: "Latest_loop rows ?st1 [] = (e, xs, rs2, st2)"
    by (cases "Latest_loop rows ?st1 []") auto
  from rows_Close_after_loop [OF nc l]
  have c: "snd (rows_Close rs2 st2) = st\<lparr>statements := statements st + 1\<rparr>"
    by simp
  show ?thesis
    using q l c by (simp add: Latest_def split: option.splits)
qed

lemma scan_snippet_Inr:
  "scan_snippet r = Inr s \<Longrightarrow> ID s = r_id r \<and> r_expires r = Some (Expires s)"
  by (auto simp: scan_snippet_def split: option.splits)

lemma map_scan_snippet:
  "map Inr xs = map scan_snippet rs \<Longrightarrow>
   map ID xs = map r_id rs \<and> map (\<lambda>s. Some (Expires s)) xs = map r_expires rs"
proof (induction xs arbitrary: rs)
  case Nil
  then show ?case by simp
next
  case (Cons x xs)
  then obtain r rs' where rs: "rs = r # rs'" by (cases rs) auto
  with Cons.prems have "scan_snippet r = Inr x" "map Inr xs = map scan_snippet rs'" by auto
  with Cons.IH [of rs'] scan_snippet_Inr [of r x] rs show ?case by simp
qed

lemma Latest_Inr:
  assumes "fst (Latest st) = Inr xs"
  shows "map Inr xs = map scan_snippet (select_latest st)"
proof (cases "conn_fault st")
  case (Some e)
  with assms show ?thesis by (simp add: Latest_def DB_Query_def)
next
  case None
  let ?st1 = "st\<lparr>statements := statements st + 1, open_rows := open_rows st + 1\<rparr>"
  from DB_Query_ok [OF None, of "select_latest st"]
  obtain rows where q: "DB_Query st (select_latest st) = (Inr rows, ?st1)"
    and nc: "\<not> closed rows"
    and pd: "pending rows = (case iter_fault st of None \<Rightarrow> select_latest st
                             | Some (n, e) \<Rightarrow> take n (select_latest st))"
    and re: "rows_err rows = (case iter_fault st of None \<Rightarrow> None | Some (n, e) \<Rightarrow> Some e)"
    by blast
  obtain e ys rs2 st2 where l: "Latest_loop rows ?st1 [] = (e, ys, rs2, st2)"
    by (cases "Latest_loop rows ?st1 []") auto
  from assms q l have e: "e = None" and err: "rows_Err rs2 = None" and ys: "ys = xs"
    by (auto simp: Latest_def split: option.splits)
  from loop_result [OF nc l [unfolded e]]
  have r: "map Inr ys = map scan_snippet (pending rows)" and k: "rows_err rs2 = rows_err rows"
    by simp_all
  from err k re have "iter_fault st = None"
    by (auto simp: rows_Err_def split: option.splits)
  then have "pending rows = select_latest st" using pd by simp
  with r ys show ?thesis by simp
qed

lemma length_select_latest: "length (select_latest st) \<le> 10"
  by (simp add: select_latest_def)

lemma set_select_latest: "r \<in> set (select_latest st) \<Longrightarrow> live st r"
  using set_take_subset [of 10 "sort_key (\<lambda>r. - r_id r) (filter (live st) (table st))"]
  by (auto simp: select_latest_def)

lemma sorted_select_latest:
  assumes d: "distinct (map r_id (table st))"
  shows "sorted_wrt (>) (map r_id (select_latest st))"
proof -
  let ?f = "\<lambda>r. - r_id r"
  let ?xs = "sort_key ?f (filter (live st) (table st))"
  have "distinct (map r_id (filter (live st) (table st)))"
    using d by (rule distinct_map_filter)
  then have "distinct (map ?f (filter (live st) (table st)))"
    by (simp add: distinct_map inj_on_def)
  then have "distinct (map ?f ?xs)"
    by (simp add: distinct_map)
  moreover have "sorted (map ?f ?xs)" by (rule sorted_sort_key)
  ultimately have "sorted_wrt (<) (map ?f ?xs)"
    by (simp add: strict_sorted_iff)
  then have "sorted_wrt (>) (map r_id ?xs)"
    by (simp add: sorted_wrt_map)
  then have "sorted_wrt (>) (take 10 (map r_id ?xs))"
    by (rule sorted_wrt_take)
  then show ?thesis
    by (simp add: select_latest_def take_map)
qed

lemma Latest_empty:
  assumes "conn_fault st = None" "iter_fault st = None" "\<forall>r\<in>set (table st). \<not> live st r"
  shows "fst (Latest st) = Inr []"
proof -
  have "filter (live st) (table st) = []" using assms(3) by (simp add: filter_empty_conv)
  then have "select_latest st = []" by (simp add: select_latest_def)
  then show ?thesis using assms(1,2)
    by (simp add: Latest_def DB_Query_def Latest_loop.simps rows_Next_def rows_Err_def)
qed

lemma Row_Scan_no_rows:
  "conn_fault st = None \<Longrightarrow> iter_fault st = None \<Longrightarrow>
   Row_Scan dest (DB_Query st []) = (Inl ErrNoRows, st\<lparr>statements := statements st + 1\<rparr>)"
  by (simp add: Row_Scan_def DB_Query_def rows_Next_def rows_Err_def rows_Close_def)

lemma Row_Scan_first:
  "conn_fault st = None \<Longrightarrow> iter_fault st = None \<Longrightarrow>
   Row_Scan dest (DB_Query st (r # rs)) = (dest r, st\<lparr>statements := statements st + 1\<rparr>)"
  by (simp add: Row_Scan_def DB_Query_def rows_Next_def rows_Scan_def rows_Close_def)

lemma Row_Scan_leaves_store:
  "snd (Row_Scan dest (DB_Query st sel)) = st\<lparr>statements := statements st + 1\<rparr>"
  by (auto simp add: Row_Scan_def DB_Query_def rows_Next_def rows_Scan_def rows_Close_def
      rows_Err_def split: option.splits list.splits prod.splits)

text \<open>Every call of \<^verbatim>\<open>Get\<close> sends one statement, and leaves no result set open.\<close>

lemma Get_leaves_store: "snd (Get st sid) = st\<lparr>statements := statements st + 1\<rparr>"
proof -
  obtain res st1 where r: "Row_Scan scan_snippet (DB_Query st (select_get st sid)) = (res, st1)"
    by (cases "Row_Scan scan_snippet (DB_Query st (select_get st sid))")
  with Row_Scan_leaves_store [of scan_snippet st "select_get st sid"]
  have "st1 = st\<lparr>statements := statements st + 1\<rparr>" by simp
  with r show ?thesis by (cases res) (simp_all add: Get_def)
qed

text \<open>A snippet is out of reach of \<^verbatim>\<open>Get\<close> once its lifetime has passed.\<close>

lemma Get_after_expiry:
  assumes "conn_fault st = None" "iter_fault st = None"
    and "\<forall>r\<in>set (table st). r_id r = sid \<longrightarrow> (\<exists>e. r_expires r = Some e \<and> e \<le> clock st + d)"
  shows "fst (Get (advance d st) sid) = Inl ErrNoRecord"
proof -
  have "select_get (advance d st) sid = []"
    using assms(3) by (fastforce simp: select_get_def filter_empty_conv live_def advance_def)
  moreover have "conn_fault (advance d st) = None" "iter_fault (advance d st) = None"
    using assms(1,2) by (simp_all add: advance_def)
  ultimately show ?thesis by (simp add: Get_def Row_Scan_no_rows)
qed

section \<open>Facts about responses\<close>

lemma client_view_append:
  "client_view (t @ es) = foldl (\<lambda>resp e. apply_event e resp) (client_view t) es"
  by (simp add: client_view_def)

lemma uncommitted_step:
  "sent (apply_event e resp) = None \<Longrightarrow> sent resp = None \<and> body (apply_event e resp) = body resp"
  by (cases e) (auto split: option.splits)

text \<open>Nothing has reached the client as long as the response is not committed.\<close>

lemma uncommitted_body:
  "sent (client_view t) = None \<Longrightarrow> body (client_view t) = []"
proof (induction t rule: rev_induct)
  case Nil
  then show ?case by (simp add: client_view_def fresh_response_def)
next
  case (snoc e t)
  from snoc.prems have "sent (apply_event e (client_view t)) = None"
    by (simp add: client_view_append)
  from uncommitted_step [OF this] snoc.IH show ?case
    by (simp add: client_view_append)
qed

text \<open>Once committed, the status and the headers on the wire do not change any more.\<close>

lemma committed_stays:
  "sent (client_view t) = Some c \<Longrightarrow> sent (client_view (t @ es)) = Some c"
proof (induction es rule: rev_induct)
  case Nil
  then show ?case by simp
next
  case (snoc e es)
  then have "sent (client_view (t @ es)) = Some c" by simp
  then have "sent (apply_event e (client_view (t @ es))) = Some c"
    by (cases e) simp_all
  then show ?case
    using client_view_append [of "t @ es" "[e]"] by simp
qed

lemma http_Error_trace:
  "http_Error msg code w =
     w\<lparr>trace := trace w @ [SetHeader ''Content-Type'' ''text/plain; charset=utf-8'',
                            SetHeader ''X-Content-Type-Options'' ''nosniff'',
                            WriteHeader code, Write (msg @ [CHR 0x0A])]\<rparr>"
  by (simp add: http_Error_def w_Write_def w_WriteHeader_def Header_Set_def emit_def)

lemma serverError_trace:
  "serverError app r err w =
     w\<lparr>trace := trace w @ [Log LevelError (error_message err)
                              [(''method'', Method r), (''uri'', RequestURI r), (''trace'', stack w)],
                            SetHeader ''Content-Type'' ''text/plain; charset=utf-8'',
                            SetHeader ''X-Content-Type-Options'' ''nosniff'',
                            WriteHeader 500, Write (StatusText 500 @ [CHR 0x0A])]\<rparr>"
  by (simp add: serverError_def http_Error_trace logger_Error_def emit_def)

lemma error_reply_view:
  "client_view (t @ [Log l m attrs, SetHeader ''Content-Type'' ''text/plain; charset=utf-8'',
                     SetHeader ''X-Content-Type-Options'' ''nosniff'',
                     WriteHeader code, Write msg]) =
     (case sent (client_view t) of
        None \<Rightarrow>
          (client_view t)
            \<lparr>hdr := (hdr (client_view t))(''Content-Type'' \<mapsto> ''text/plain; charset=utf-8'',
                                            ''X-Content-Type-Options'' \<mapsto> ''nosniff''),
             sent := Some (code, (hdr (client_view t))
                                   (''Content-Type'' \<mapsto> ''text/plain; charset=utf-8'',
                                    ''X-Content-Type-Options'' \<mapsto> ''nosniff'')),
             body := body (client_view t) @ msg\<rparr>
      | Some c \<Rightarrow>
          (client_view t)
            \<lparr>hdr := (hdr (client_view t))(''Content-Type'' \<mapsto> ''text/plain; charset=utf-8'',
                                            ''X-Content-Type-Options'' \<mapsto> ''nosniff''),
             body := body (client_view t) @ msg\<rparr>)"
  by (simp add: client_view_append split: option.splits)

lemma render_success_view:
  assumes u: "sent (client_view t) = None"
  shows "status_code (client_view (t @ WriteHeader status # (if buf = [] then [] else [Write buf])))
           = Some status
       \<and> body (client_view (t @ WriteHeader status # (if buf = [] then [] else [Write buf]))) = buf"
  using u uncommitted_body [OF u] by (simp add: client_view_append status_code_def)

section \<open>The persistence model\<close>

text \<open>
  Claim C2. When the store answers the query and no row with the given id has an expiry
  later than the store's clock, the store's signal is \<^verbatim>\<open>sql.ErrNoRows\<close> and \<^verbatim>\<open>Get\<close> fails
  with \<^verbatim>\<open>ErrNoRecord\<close>. Whatever happens in the store, an error returned by \<^verbatim>\<open>Get\<close> is
  never \<^verbatim>\<open>sql.ErrNoRows\<close>, not even wrapped.
\<close>

theorem Get_not_found:
  "(conn_fault st = None \<and> iter_fault st = None
      \<and> (\<forall>r\<in>set (table st). \<not> (r_id r = sid \<and> live st r))
    \<longrightarrow> fst (Row_Scan scan_snippet (DB_Query st (select_get st sid))) = Inl ErrNoRows
        \<and> fst (Get st sid) = Inl ErrNoRecord)
   \<and> (\<forall>e. fst (Get st sid) = Inl e \<longrightarrow> \<not> errors_Is e ErrNoRows)"
proof (intro conjI impI allI)
  assume a: "conn_fault st = None \<and> iter_fault st = None
      \<and> (\<forall>r\<in>set (table st). \<not> (r_id r = sid \<and> live st r))"
  then have "select_get st sid = []" by (auto simp: select_get_def filter_empty_conv)
  with a show "fst (Row_Scan scan_snippet (DB_Query st (select_get st sid))) = Inl ErrNoRows"
    and "fst (Get st sid) = Inl ErrNoRecord"
    by (simp_all add: Get_def Row_Scan_no_rows)
next
  fix e assume "fst (Get st sid) = Inl e"
  then show "\<not> errors_Is e ErrNoRows"
    by (auto simp: Get_def split: prod.splits sum.splits if_splits)
qed

theorem Get_not_found_witness:
  "fst (Get ex_store 2) = Inl ErrNoRecord \<and> fst (Get ex_store 9) = Inl ErrNoRecord
   \<and> \<not> errors_Is ErrNoRecord ErrNoRows"
proof -
  have h: "conn_fault ex_store = None" "iter_fault ex_store = None"
    by (simp_all add: ex_store_def)
  have e2: "\<forall>r\<in>set (table ex_store). \<not> (r_id r = 2 \<and> live ex_store r)"
    by (simp add: ex_store_def ex_row_def live_def)
  have e9: "\<forall>r\<in>set (table ex_store). \<not> (r_id r = 9 \<and> live ex_store r)"
    by (simp add: ex_store_def ex_row_def live_def)
  from Get_not_found [of ex_store 2] h e2 have g2: "fst (Get ex_store 2) = Inl ErrNoRecord"
    and n2: "\<forall>e. fst (Get ex_store 2) = Inl e \<longrightarrow> \<not> errors_Is e ErrNoRows" by simp_all
  from Get_not_found [of ex_store 9] h e9 have g9: "fst (Get ex_store 9) = Inl ErrNoRecord"
    by simp
  from g2 n2 have "\<not> errors_Is ErrNoRecord ErrNoRows" by blast
  with g2 g9 show ?thesis by simp
qed

text \<open>
  Claim C3. In a table whose ids are unique, a list returned by \<^verbatim>\<open>Latest\<close> has at most 10
  snippets, is in strictly descending order of id, and holds only snippets that expire
  after the store's clock at the time of the query. When the store answers and no row
  is live, \<^verbatim>\<open>Latest\<close> returns the empty list and no error.
\<close>

theorem Latest_ten_descending_live:
  assumes "distinct (map r_id (table st))"
  shows "(\<forall>xs. fst (Latest st) = Inr xs \<longrightarrow>
            length xs \<le> 10 \<and> sorted_wrt (\<lambda>a b. ID a > ID b) xs
            \<and> (\<forall>s\<in>set xs. Expires s > clock st))
       \<and> (conn_fault st = None \<and> iter_fault st = None \<and> (\<forall>r\<in>set (table st). \<not> live st r)
            \<longrightarrow> fst (Latest st) = Inr [])"
proof (intro conjI allI impI)
  fix xs assume a: "fst (Latest st) = Inr xs"
  from Latest_Inr [OF a] have m: "map Inr xs = map scan_snippet (select_latest st)" .
  from map_scan_snippet [OF m]
  have ids: "map ID xs = map r_id (select_latest st)"
    and exs: "map (\<lambda>s. Some (Expires s)) xs = map r_expires (select_latest st)" by simp_all
  have "length xs = length (select_latest st)" using ids by (metis length_map)
  then show "length xs \<le> 10" using length_select_latest [of st] by simp
  have "sorted_wrt (>) (map ID xs)" using sorted_select_latest [OF assms] ids by simp
  then show "sorted_wrt (\<lambda>a b. ID a > ID b) xs" by (simp add: sorted_wrt_map)
  show "\<forall>s\<in>set xs. Expires s > clock st"
  proof
    fix s assume "s \<in> set xs"
    then have "Some (Expires s) \<in> set (map (\<lambda>s. Some (Expires s)) xs)" by auto
    then obtain r where r: "r \<in> set (select_latest st)" "r_expires r = Some (Expires s)"
      unfolding exs by auto
    then have "live st r" using set_select_latest by blast
    with r(2) show "Expires s > clock st" by (simp add: live_def)
  qed
next
  assume "conn_fault st = None \<and> iter_fault st = None \<and> (\<forall>r\<in>set (table st). \<not> live st r)"
  then show "fst (Latest st) = Inr []" using Latest_empty by blast
qed

theorem Latest_ten_descending_live_witness:
  "fst (Latest ex_big) =
     Inr (map (\<lambda>i. \<lparr>ID = i, Title = ''t'', Content = ''text'', Created = 0, Expires = 500\<rparr>)
            [12, 11, 10, 9, 8, 7, 6, 5, 4, 3])
   \<and> length (map (\<lambda>i. \<lparr>ID = i, Title = ''t'', Content = ''text'', Created = 0, Expires = 500\<rparr>)
            [12, 11, 10, 9, 8, 7, 6, 5, 4, 3 :: int]) \<le> 10
   \<and> sorted_wrt (\<lambda>a b. ID a > ID b)
       (map (\<lambda>i. \<lparr>ID = i, Title = ''t'', Content = ''text'', Created = 0, Expires = 500\<rparr>)
            [12, 11, 10, 9, 8, 7, 6, 5, 4, 3])
   \<and> fst (Latest (advance 1000 ex_store)) = Inr []"
proof -
  let ?L = "map (\<lambda>i. \<lparr>ID = i, Title = ''t'', Content = ''text'', Created = 0, Expires = 500\<rparr>)
            [12, 11, 10, 9, 8, 7, 6, 5, 4, 3 :: int]"
  have d: "distinct (map r_id (table ex_big))"
    by (simp add: ex_big_def ex_store_def ex_row_def)
  have e: "fst (Latest ex_big) = Inr ?L"
    by code_simp
  from Latest_ten_descending_live [OF d] e
  have p: "length ?L \<le> 10 \<and> sorted_wrt (\<lambda>a b. ID a > ID b) ?L" by blast
  have d': "distinct (map r_id (table (advance 1000 ex_store)))"
    by (simp add: advance_def ex_store_def ex_row_def)
  have h: "conn_fault (advance 1000 ex_store) = None \<and> iter_fault (advance 1000 ex_store) = None
           \<and> (\<forall>r\<in>set (table (advance 1000 ex_store)). \<not> live (advance 1000 ex_store) r)"
    by (simp add: advance_def ex_store_def ex_row_def live_def)
  from Latest_ten_descending_live [OF d'] h
  have "fst (Latest (advance 1000 ex_store)) = Inr []" by blast
  with e p show ?thesis by blast
qed

text \<open>
  Claim C8. On a store that answers and whose key sequence is ahead of the ids in use,
  \<^verbatim>\<open>Insert(t, c, 7)\<close> returns the new id, and \<^verbatim>\<open>Get\<close> of that id, at any moment less than
  7 days later, returns a snippet with title \<open>t\<close> and content \<open>c\<close>, created at the
  store's time of the insertion and expiring exactly 7 days after that.
\<close>

theorem Insert_Get_roundtrip:
  assumes h: "conn_fault st = None" "iter_fault st = None"
    and fresh: "\<forall>r\<in>set (table st). r_id r \<noteq> next_id st"
    and d: "0 \<le> d" "d < 7 * day"
  shows "fst (Insert st t c 7) = Inr (next_id st)
       \<and> fst (Get (advance d (snd (Insert st t c 7))) (next_id st)) =
           Inr \<lparr>ID = next_id st, Title = t, Content = c, Created = clock st,
                Expires = clock st + 7 * day\<rparr>"
proof -
  let ?new = "inserted_row st t c 7"
  let ?st0 = "st\<lparr>table := table st @ [?new], next_id := next_id st + 1\<rparr>"
  let ?st1 = "?st0\<lparr>statements := statements st + 1\<rparr>"
  have h0: "conn_fault ?st0 = None" "iter_fault ?st0 = None" using h by simp_all
  have ins: "Insert st t c 7 = (Inr (next_id st), ?st1)"
    using h(1) Row_Scan_first [OF h0, of scan_id ?new "[]"]
    by (simp add: Insert_def scan_id_def inserted_row_def)
  let ?st2 = "advance d ?st1"
  have h2: "conn_fault ?st2 = None" "iter_fault ?st2 = None" using h by (simp_all add: advance_def)
  have lv: "live ?st2 ?new" using d by (simp add: live_def inserted_row_def advance_def)
  have "filter (\<lambda>r. live ?st2 r \<and> r_id r = next_id st) (table st) = []"
    using fresh by (auto simp: filter_empty_conv)
  then have sel: "select_get ?st2 (next_id st) = [?new]"
    using lv by (simp add: select_get_def advance_def inserted_row_def)
  have "fst (Get ?st2 (next_id st)) = scan_snippet ?new"
    using Row_Scan_first [OF h2, of scan_snippet ?new "[]"] sel
    by (simp add: Get_def scan_snippet_def inserted_row_def)
  then show ?thesis using ins by (simp add: scan_snippet_def inserted_row_def mult.commute)
qed

theorem Insert_Get_roundtrip_witness:
  "fst (Insert ex_store ''haiku'' ''An old silent pond'' 7) = Inr 4
   \<and> fst (Get (advance 3600000000 (snd (Insert ex_store ''haiku'' ''An old silent pond'' 7))) 4) =
       Inr \<lparr>ID = 4, Title = ''haiku'', Content = ''An old silent pond'', Created = 100,
            Expires = 604800000100\<rparr>"
proof -
  have h: "conn_fault ex_store = None" "iter_fault ex_store = None"
    by (simp_all add: ex_store_def)
  have f: "\<forall>r\<in>set (table ex_store). r_id r \<noteq> next_id ex_store"
    by (simp add: ex_store_def ex_row_def)
  have d: "(0::int) \<le> 3600000000" "3600000000 < 7 * day" by (simp_all add: day_def)
  from Insert_Get_roundtrip [OF h f d, of "''haiku''" "''An old silent pond''"]
  show ?thesis by (simp add: ex_store_def day_def)
qed

text \<open>
  Claim C9. Whichever way \<^verbatim>\<open>Latest\<close> returns (the query fails, a row fails to scan, the
  iteration breaks, or all rows are read), the number of open result sets is what it was
  before the call: the result set opened by the query has been closed. The call leaves
  the store as it was, one statement later.
\<close>

theorem Latest_closes_rows:
  "open_rows (snd (Latest st)) = open_rows st
   \<and> snd (Latest st) = st\<lparr>statements := statements st + 1\<rparr>"
  by (simp add: Latest_leaves_store)

theorem Latest_closes_rows_witness:
  "fst (Latest (ex_store\<lparr>conn_fault := Some (DriverError ''connection refused'')\<rparr>)) =
     Inl (DriverError ''connection refused'')
   \<and> open_rows (snd (Latest (ex_store\<lparr>conn_fault := Some (DriverError ''connection refused'')\<rparr>))) = 0
   \<and> fst (Latest ex_null) = Inl (ScanError 1)
   \<and> open_rows (snd (Latest ex_null)) = 0
   \<and> fst (Latest (ex_store\<lparr>iter_fault := Some (1, DriverError ''broken pipe'')\<rparr>)) =
     Inl (DriverError ''broken pipe'')
   \<and> open_rows (snd (Latest (ex_store\<lparr>iter_fault := Some (1, DriverError ''broken pipe'')\<rparr>))) = 0
   \<and> fst (Latest ex_store) =
       Inr [\<lparr>ID = 3, Title = ''c'', Content = ''text'', Created = 0, Expires = 900\<rparr>,
            \<lparr>ID = 1, Title = ''a'', Content = ''text'', Created = 0, Expires = 500\<rparr>]
   \<and> open_rows (snd (Latest ex_store)) = 0"
proof -
  have "fst (Latest (ex_store\<lparr>conn_fault := Some (DriverError ''connection refused'')\<rparr>)) =
     Inl (DriverError ''connection refused'')" by code_simp
  moreover have "fst (Latest ex_null) = Inl (ScanError 1)" by code_simp
  moreover have "fst (Latest (ex_store\<lparr>iter_fault := Some (1, DriverError ''broken pipe'')\<rparr>)) =
     Inl (DriverError ''broken pipe'')" by code_simp
  moreover have "fst (Latest ex_store) =
       Inr [\<lparr>ID = 3, Title = ''c'', Content = ''text'', Created = 0, Expires = 900\<rparr>,
            \<lparr>ID = 1, Title = ''a'', Content = ''text'', Created = 0, Expires = 500\<rparr>]" by code_simp
  moreover note
    Latest_closes_rows [of "ex_store\<lparr>conn_fault := Some (DriverError ''connection refused'')\<rparr>"]
    Latest_closes_rows [of ex_null]
    Latest_closes_rows [of "ex_store\<lparr>iter_fault := Some (1, DriverError ''broken pipe'')\<rparr>"]
    Latest_closes_rows [of ex_store]
  ultimately show ?thesis by (simp add: ex_store_def ex_null_def)
qed

section \<open>Rendering and error replies\<close>

text \<open>
  Claim C1. For a page of the template cache, \<^verbatim>\<open>render\<close> runs the template into its own
  buffer. When the execution succeeds, what \<^verbatim>\<open>render\<close> does to the response is to write
  the status and then the buffer. When the execution fails, however much the template
  had written, \<^verbatim>\<open>render\<close> does exactly what \<^verbatim>\<open>serverError\<close> does, so that nothing of the
  buffer is written. A client whose response had not been started receives the status
  and the whole page in the first case, and status 500 with the fixed text and nothing
  else in the second.
\<close>

theorem render_staged_atomicity:
  assumes c: "templateCache app page = Some ts"
  shows "(snd (ts ''base'' data) = None \<longrightarrow>
            render app r status page data w =
              w\<lparr>trace := trace w @ WriteHeader status #
                    (if fst (ts ''base'' data) = [] then [] else [Write (fst (ts ''base'' data))])\<rparr>)
       \<and> (\<forall>err. snd (ts ''base'' data) = Some err \<longrightarrow>
            render app r status page data w = serverError app r err w)
       \<and> (sent (client_view (trace w)) = None \<longrightarrow>
            (case snd (ts ''base'' data) of
               None \<Rightarrow>
                 status_code (client_view (trace (render app r status page data w))) = Some status
                 \<and> body (client_view (trace (render app r status page data w)))
                     = fst (ts ''base'' data)
             | Some err \<Rightarrow>
                 status_code (client_view (trace (render app r status page data w))) = Some 500
                 \<and> body (client_view (trace (render app r status page data w)))
                     = ''Internal Server Error'' @ [CHR 0x0A]))"
proof (intro conjI allI impI)
  assume ok: "snd (ts ''base'' data) = None"
  show "render app r status page data w =
              w\<lparr>trace := trace w @ WriteHeader status #
                    (if fst (ts ''base'' data) = [] then [] else [Write (fst (ts ''base'' data))])\<rparr>"
    using c ok
    by (simp add: render_def ExecuteTemplate_def buf_WriteTo_def w_Write_def w_WriteHeader_def
        emit_def)
next
  fix err assume "snd (ts ''base'' data) = Some err"
  then show "render app r status page data w = serverError app r err w"
    using c by (simp add: render_def ExecuteTemplate_def)
next
  assume u: "sent (client_view (trace w)) = None"
  show "case snd (ts ''base'' data) of
               None \<Rightarrow>
                 status_code (client_view (trace (render app r status page data w))) = Some status
                 \<and> body (client_view (trace (render app r status page data w)))
                     = fst (ts ''base'' data)
             | Some err \<Rightarrow>
                 status_code (client_view (trace (render app r status page data w))) = Some 500
                 \<and> body (client_view (trace (render app r status page data w)))
                     = ''Internal Server Error'' @ [CHR 0x0A]"
  proof (cases "snd (ts ''base'' data)")
    case None
    then have "trace (render app r status page data w) = trace w @ WriteHeader status #
                    (if fst (ts ''base'' data) = [] then [] else [Write (fst (ts ''base'' data))])"
      using c
      by (simp add: render_def ExecuteTemplate_def buf_WriteTo_def w_Write_def w_WriteHeader_def
          emit_def)
    then show ?thesis using None render_success_view [OF u, of status "fst (ts ''base'' data)"]
      by simp
  next
    case (Some err)
    then have "render app r status page data w = serverError app r err w"
      using c by (simp add: render_def ExecuteTemplate_def)
    moreover have "status_code (client_view (trace (serverError app r err w))) = Some 500"
      using u by (simp add: serverError_trace error_reply_view status_code_def)
    moreover have "body (client_view (trace (serverError app r err w)))
                     = ''Internal Server Error'' @ [CHR 0x0A]"
      using u uncommitted_body [OF u]
      by (simp add: serverError_trace error_reply_view StatusText_def)
    ultimately show ?thesis using Some by simp
  qed
qed

theorem render_staged_atomicity_witness:
  "status_code (client_view (trace (render ex_app ex_request 200 ''view.tmpl'' ex_data ex_world)))
     = Some 500
   \<and> body (client_view (trace (render ex_app ex_request 200 ''view.tmpl'' ex_data ex_world)))
     = ''Internal Server Error'' @ [CHR 0x0A]
   \<and> status_code (client_view (trace (render ex_app ex_request 200 ''home.tmpl'' ex_data ex_world)))
     = Some 200
   \<and> body (client_view (trace (render ex_app ex_request 200 ''home.tmpl'' ex_data ex_world)))
     = ''<h1>Snippetbox</h1>''"
proof -
  have bad: "templateCache ex_app ''view.tmpl'' = Some ex_page_bad" by (simp add: ex_app_def)
  have ok: "templateCache ex_app ''home.tmpl'' = Some ex_page_ok" by (simp add: ex_app_def)
  have u: "sent (client_view (trace ex_world)) = None"
    by (simp add: ex_world_def client_view_def fresh_response_def)
  from render_staged_atomicity [OF bad, where data = ex_data and r = ex_request and status = 200
      and w = ex_world]
  have "sent (client_view (trace ex_world)) = None \<longrightarrow>
          (case snd (ex_page_bad ''base'' ex_data) of
             None \<Rightarrow>
               status_code (client_view (trace (render ex_app ex_request 200 ''view.tmpl'' ex_data ex_world)))
                 = Some 200
               \<and> body (client_view (trace (render ex_app ex_request 200 ''view.tmpl'' ex_data ex_world)))
                   = fst (ex_page_bad ''base'' ex_data)
           | Some err \<Rightarrow>
               status_code (client_view (trace (render ex_app ex_request 200 ''view.tmpl'' ex_data ex_world)))
                 = Some 500
               \<and> body (client_view (trace (render ex_app ex_request 200 ''view.tmpl'' ex_data ex_world)))
                   = ''Internal Server Error'' @ [CHR 0x0A])"
    by blast
  with u
  have 1: "status_code (client_view (trace (render ex_app ex_request 200 ''view.tmpl'' ex_data ex_world)))
     = Some 500
   \<and> body (client_view (trace (render ex_app ex_request 200 ''view.tmpl'' ex_data ex_world)))
     = ''Internal Server Error'' @ [CHR 0x0A]"
    by (simp add: ex_page_bad_def)
  from render_staged_atomicity [OF ok, where data = ex_data and r = ex_request and status = 200
      and w = ex_world]
  have "sent (client_view (trace ex_world)) = None \<longrightarrow>
          (case snd (ex_page_ok ''base'' ex_data) of
             None \<Rightarrow>
               status_code (client_view (trace (render ex_app ex_request 200 ''home.tmpl'' ex_data ex_world)))
                 = Some 200
               \<and> body (client_view (trace (render ex_app ex_request 200 ''home.tmpl'' ex_data ex_world)))
                   = fst (ex_page_ok ''base'' ex_data)
           | Some err \<Rightarrow>
               status_code (client_view (trace (render ex_app ex_request 200 ''home.tmpl'' ex_data ex_world)))
                 = Some 500
               \<and> body (client_view (trace (render ex_app ex_request 200 ''home.tmpl'' ex_data ex_world)))
                   = ''Internal Server Error'' @ [CHR 0x0A])"
    by blast
  with u
  have 2: "status_code (client_view (trace (render ex_app ex_request 200 ''home.tmpl'' ex_data ex_world)))
     = Some 200
   \<and> body (client_view (trace (render ex_app ex_request 200 ''home.tmpl'' ex_data ex_world)))
     = ''<h1>Snippetbox</h1>''"
    by (simp add: ex_page_ok_def)
  from 1 2 show ?thesis by simp
qed

text \<open>
  Claim C6. For a page name that is not in the template cache, \<^verbatim>\<open>render\<close> does exactly
  what \<^verbatim>\<open>serverError\<close> does with the error "the template ... does not exist": it logs the
  error and replies with status 500. No status is written before that one, no template
  is executed, and the status is not 404.
\<close>

theorem render_missing_page:
  assumes c: "templateCache app page = None"
  shows "render app r status page data w =
           serverError app r (Errorf (''the template '' @ page @ '' does not exist'')) w
       \<and> trace (render app r status page data w) =
           trace w @ [Log LevelError (''the template '' @ page @ '' does not exist'')
                        [(''method'', Method r), (''uri'', RequestURI r), (''trace'', stack w)],
                      SetHeader ''Content-Type'' ''text/plain; charset=utf-8'',
                      SetHeader ''X-Content-Type-Options'' ''nosniff'',
                      WriteHeader 500, Write (''Internal Server Error'' @ [CHR 0x0A])]
       \<and> (sent (client_view (trace w)) = None \<longrightarrow>
            status_code (client_view (trace (render app r status page data w))) = Some 500)"
  using c by (simp add: render_def serverError_trace error_reply_view status_code_def StatusText_def)

theorem render_missing_page_witness:
  "trace (render ex_app ex_request 200 ''about.tmpl'' ex_data ex_world) =
     [Log LevelError ''the template about.tmpl does not exist''
        [(''method'', ''GET''), (''uri'', ''/snippet/view/1''), (''trace'', ''goroutine 1 [running]'')],
      SetHeader ''Content-Type'' ''text/plain; charset=utf-8'',
      SetHeader ''X-Content-Type-Options'' ''nosniff'',
      WriteHeader 500, Write (''Internal Server Error'' @ [CHR 0x0A])]
   \<and> status_code (client_view (trace (render ex_app ex_request 200 ''about.tmpl'' ex_data ex_world)))
       = Some 500"
proof -
  have c: "templateCache ex_app ''about.tmpl'' = None" by (simp add: ex_app_def)
  have u: "sent (client_view (trace ex_world)) = None"
    by (simp add: ex_world_def client_view_def fresh_response_def)
  from render_missing_page [OF c, where data = ex_data and r = ex_request and status = 200
      and w = ex_world]
  have t: "trace (render ex_app ex_request 200 ''about.tmpl'' ex_data ex_world) =
           trace ex_world @ [Log LevelError (''the template '' @ ''about.tmpl'' @ '' does not exist'')
                        [(''method'', Method ex_request), (''uri'', RequestURI ex_request),
                         (''trace'', stack ex_world)],
                      SetHeader ''Content-Type'' ''text/plain; charset=utf-8'',
                      SetHeader ''X-Content-Type-Options'' ''nosniff'',
                      WriteHeader 500, Write (''Internal Server Error'' @ [CHR 0x0A])]"
    and s: "sent (client_view (trace ex_world)) = None \<longrightarrow>
            status_code (client_view (trace (render ex_app ex_request 200 ''about.tmpl'' ex_data ex_world)))
              = Some 500"
    by blast+
  from t have "trace (render ex_app ex_request 200 ''about.tmpl'' ex_data ex_world) =
     [Log LevelError ''the template about.tmpl does not exist''
        [(''method'', ''GET''), (''uri'', ''/snippet/view/1''), (''trace'', ''goroutine 1 [running]'')],
      SetHeader ''Content-Type'' ''text/plain; charset=utf-8'',
      SetHeader ''X-Content-Type-Options'' ''nosniff'',
      WriteHeader 500, Write (''Internal Server Error'' @ [CHR 0x0A])]"
    by (simp add: ex_world_def ex_request_def)
  with s u show ?thesis by blast
qed



section \<open>The middleware chain\<close>

text \<open>
  Claim C4. The handler built by \<^verbatim>\<open>routes\<close> is the recovery middleware around the logging
  middleware around the common-headers middleware around the router. For every request
  the recovering function is installed first, then the request is logged, then the
  common header is set, and only then the router runs: the router starts in the state in
  which these three things, in this order, are the last that were done. A panic of the
  router is recovered, and no panic of whatever runs inside the recovery middleware
  leaves the composed handler.
\<close>

theorem routes_middleware_order:
  "routes app mux r w =
     (case mux r (w\<lparr>trace := trace w @
                     [DeferRecover,
                      Log LevelInfo ''received request''
                        [(''ip'', RemoteAddr r), (''proto'', Proto r),
                         (''method'', Method r), (''uri'', RequestURI r)],
                      SetHeader ''Server'' ''Go'']\<rparr>) of
        (w1, None) \<Rightarrow> (w1, None)
      | (w1, Some v) \<Rightarrow>
          (serverError app r (Errorf v)
             (w1\<lparr>trace := trace w1 @ [SetHeader ''Connection'' ''close'']\<rparr>), None))
   \<and> snd (routes app mux r w) = None
   \<and> routes app mux = recoverPanic app (logRequest app (commonHeaders mux))
   \<and> snd (recoverPanic app inner r w) = None"
  by (simp add: routes_def recoverPanic_def logRequest_def commonHeaders_def logger_Info_def
      defer_recover_def Header_Set_def emit_def split: prod.splits option.splits)

theorem routes_middleware_order_witness:
  "trace (fst (routes ex_app ex_mux ex_request ex_world)) =
     [DeferRecover,
      Log LevelInfo ''received request''
        [(''ip'', ''127.0.0.1:5000''), (''proto'', ''HTTP/1.1''), (''method'', ''GET''),
         (''uri'', ''/snippet/view/1'')],
      SetHeader ''Server'' ''Go'',
      Write ''OK'']
   \<and> snd (routes ex_app ex_mux ex_request ex_world) = None
   \<and> trace (fst (routes ex_app ex_panic ex_request ex_world)) =
     [DeferRecover,
      Log LevelInfo ''received request''
        [(''ip'', ''127.0.0.1:5000''), (''proto'', ''HTTP/1.1''), (''method'', ''GET''),
         (''uri'', ''/snippet/view/1'')],
      SetHeader ''Server'' ''Go'',
      SetHeader ''Connection'' ''close'',
      Log LevelError ''index out of range''
        [(''method'', ''GET''), (''uri'', ''/snippet/view/1''), (''trace'', ''goroutine 1 [running]'')],
      SetHeader ''Content-Type'' ''text/plain; charset=utf-8'',
      SetHeader ''X-Content-Type-Options'' ''nosniff'',
      WriteHeader 500, Write (''Internal Server Error'' @ [CHR 0x0A])]
   \<and> snd (routes ex_app ex_panic ex_request ex_world) = None"
proof -
  from routes_middleware_order [of ex_app ex_mux ex_request ex_world]
  have 1: "routes ex_app ex_mux ex_request ex_world =
     (case ex_mux ex_request (ex_world\<lparr>trace := trace ex_world @
                     [DeferRecover,
                      Log LevelInfo ''received request''
                        [(''ip'', RemoteAddr ex_request), (''proto'', Proto ex_request),
                         (''method'', Method ex_request), (''uri'', RequestURI ex_request)],
                      SetHeader ''Server'' ''Go'']\<rparr>) of
        (w1, None) \<Rightarrow> (w1, None)
      | (w1, Some v) \<Rightarrow>
          (serverError ex_app ex_request (Errorf v)
             (w1\<lparr>trace := trace w1 @ [SetHeader ''Connection'' ''close'']\<rparr>), None))"
    by blast
  from routes_middleware_order [of ex_app ex_panic ex_request ex_world]
  have 2: "routes ex_app ex_panic ex_request ex_world =
     (case ex_panic ex_request (ex_world\<lparr>trace := trace ex_world @
                     [DeferRecover,
                      Log LevelInfo ''received request''
                        [(''ip'', RemoteAddr ex_request), (''proto'', Proto ex_request),
                         (''method'', Method ex_request), (''uri'', RequestURI ex_request)],
                      SetHeader ''Server'' ''Go'']\<rparr>) of
        (w1, None) \<Rightarrow> (w1, None)
      | (w1, Some v) \<Rightarrow>
          (serverError ex_app ex_request (Errorf v)
             (w1\<lparr>trace := trace w1 @ [SetHeader ''Connection'' ''close'']\<rparr>), None))"
    by blast
  show ?thesis
    unfolding 1 2
    by (simp add: ex_mux_def ex_panic_def ex_world_def ex_request_def w_Write_def emit_def
        serverError_trace StatusText_def)
qed

text \<open>
  Claim C5, as amended. Whatever the handler behind \<^verbatim>\<open>recoverPanic\<close> does, no panic leaves
  the middleware, and the panics of goroutines started while handling are left as the
  handler left them, whether the handler itself returned or panicked. When the handler
  returns, the middleware adds nothing. When it panics, the middleware sets the header
  \<^verbatim>\<open>Connection: close\<close> and then takes the server-error path: an entry in the error log and
  a reply with status 500 and the fixed text. If nothing had been written to the response
  by the time of the panic, the client receives status 500, the header
  \<^verbatim>\<open>Connection: close\<close> and the fixed text. If the handler had already started the response,
  the status and the headers that were sent stay what they were, and the fixed text is
  added to the body.
\<close>

theorem recoverPanic_intercepts:
  "snd (recoverPanic app h r w) = None
   \<and> goroutine_panics (fst (recoverPanic app h r w)) = goroutine_panics (fst (h r (defer_recover w)))
   \<and> (\<forall>wp. h r (defer_recover w) = (wp, None) \<longrightarrow> recoverPanic app h r w = (wp, None))
   \<and> (\<forall>wp v. h r (defer_recover w) = (wp, Some v) \<longrightarrow>
        trace (fst (recoverPanic app h r w)) =
          trace wp @ [SetHeader ''Connection'' ''close'',
                      Log LevelError v
                        [(''method'', Method r), (''uri'', RequestURI r), (''trace'', stack wp)],
                      SetHeader ''Content-Type'' ''text/plain; charset=utf-8'',
                      SetHeader ''X-Content-Type-Options'' ''nosniff'',
                      WriteHeader 500, Write (''Internal Server Error'' @ [CHR 0x0A])]
        \<and> (sent (client_view (trace wp)) = None \<longrightarrow>
             status_code (client_view (trace (fst (recoverPanic app h r w)))) = Some 500
             \<and> sent_header (client_view (trace (fst (recoverPanic app h r w)))) ''Connection''
                 = Some ''close''
             \<and> body (client_view (trace (fst (recoverPanic app h r w))))
                 = ''Internal Server Error'' @ [CHR 0x0A])
        \<and> (\<forall>c. sent (client_view (trace wp)) = Some c \<longrightarrow>
             sent (client_view (trace (fst (recoverPanic app h r w)))) = Some c
             \<and> body (client_view (trace (fst (recoverPanic app h r w))))
                 = body (client_view (trace wp)) @ ''Internal Server Error'' @ [CHR 0x0A]))"
proof (intro conjI allI impI)
  show "snd (recoverPanic app h r w) = None"
    by (simp add: recoverPanic_def split: prod.splits option.splits)
  show "goroutine_panics (fst (recoverPanic app h r w)) = goroutine_panics (fst (h r (defer_recover w)))"
    by (simp add: recoverPanic_def serverError_trace Header_Set_def emit_def
        split: prod.splits option.splits)
next
  fix wp assume "h r (defer_recover w) = (wp, None)"
  then show "recoverPanic app h r w = (wp, None)" by (simp add: recoverPanic_def)
next
  fix wp v assume p: "h r (defer_recover w) = (wp, Some v)"
  let ?wq = "wp\<lparr>trace := trace wp @ [SetHeader ''Connection'' ''close'']\<rparr>"
  let ?es = "[SetHeader ''Connection'' ''close'',
              Log LevelError v
                [(''method'', Method r), (''uri'', RequestURI r), (''trace'', stack wp)],
              SetHeader ''Content-Type'' ''text/plain; charset=utf-8'',
              SetHeader ''X-Content-Type-Options'' ''nosniff'',
              WriteHeader 500, Write (''Internal Server Error'' @ [CHR 0x0A])]"
  have e: "recoverPanic app h r w = (serverError app r (Errorf v) ?wq, None)"
    using p by (simp add: recoverPanic_def Header_Set_def emit_def)
  show t: "trace (fst (recoverPanic app h r w)) = trace wp @ ?es"
    unfolding e by (simp add: serverError_trace StatusText_def)
  {
    assume u: "sent (client_view (trace wp)) = None"
    show "status_code (client_view (trace (fst (recoverPanic app h r w)))) = Some 500"
      unfolding t using u by (simp add: client_view_append status_code_def)
    show "sent_header (client_view (trace (fst (recoverPanic app h r w)))) ''Connection''
            = Some ''close''"
      unfolding t using u by (simp add: client_view_append sent_header_def)
    show "body (client_view (trace (fst (recoverPanic app h r w))))
            = ''Internal Server Error'' @ [CHR 0x0A]"
      unfolding t using u uncommitted_body [OF u] by (simp add: client_view_append)
  }
  {
    fix c assume c: "sent (client_view (trace wp)) = Some c"
    show "sent (client_view (trace (fst (recoverPanic app h r w)))) = Some c"
      unfolding t using committed_stays [OF c] by simp
    show "body (client_view (trace (fst (recoverPanic app h r w))))
            = body (client_view (trace wp)) @ ''Internal Server Error'' @ [CHR 0x0A]"
      unfolding t using c by (simp add: client_view_append)
  }
qed

theorem recoverPanic_intercepts_witness:
  "snd (recoverPanic ex_app ex_panic ex_request ex_world) = None
   \<and> status_code (client_view (trace (fst (recoverPanic ex_app ex_panic ex_request ex_world))))
       = Some 500
   \<and> sent_header (client_view (trace (fst (recoverPanic ex_app ex_panic ex_request ex_world))))
       ''Connection'' = Some ''close''
   \<and> body (client_view (trace (fst (recoverPanic ex_app ex_panic ex_request ex_world))))
       = ''Internal Server Error'' @ [CHR 0x0A]
   \<and> snd (recoverPanic ex_app ex_write_panic ex_request ex_world) = None
   \<and> sent (client_view (trace (fst (recoverPanic ex_app ex_write_panic ex_request ex_world))))
       = Some (200, Map.empty)
   \<and> body (client_view (trace (fst (recoverPanic ex_app ex_write_panic ex_request ex_world))))
       = ''OK'' @ ''Internal Server Error'' @ [CHR 0x0A]
   \<and> recoverPanic ex_app ex_background ex_request ex_world
       = ex_background ex_request (defer_recover ex_world)
   \<and> goroutine_panics (fst (recoverPanic ex_app ex_background ex_request ex_world))
       = [''background failure'']"
proof -
  have p: "ex_panic ex_request (defer_recover ex_world)
             = (defer_recover ex_world, Some ''index out of range'')"
    by (simp add: ex_panic_def)
  have u: "sent (client_view (trace (defer_recover ex_world))) = None"
    by (simp add: ex_world_def defer_recover_def emit_def client_view_def fresh_response_def)
  note a = recoverPanic_intercepts [where h = ex_panic and r = ex_request and w = ex_world
      and app = ex_app]
  from a have a1: "snd (recoverPanic ex_app ex_panic ex_request ex_world) = None" by blast
  from a p u
  have a2: "status_code (client_view (trace (fst (recoverPanic ex_app ex_panic ex_request ex_world))))
       = Some 500
   \<and> sent_header (client_view (trace (fst (recoverPanic ex_app ex_panic ex_request ex_world))))
       ''Connection'' = Some ''close''
   \<and> body (client_view (trace (fst (recoverPanic ex_app ex_panic ex_request ex_world))))
       = ''Internal Server Error'' @ [CHR 0x0A]"
    by blast
  have q: "ex_write_panic ex_request (defer_recover ex_world)
             = (w_Write ''OK'' (defer_recover ex_world), Some ''index out of range'')"
    by (simp add: ex_write_panic_def)
  have c: "sent (client_view (trace (w_Write ''OK'' (defer_recover ex_world)))) = Some (200, Map.empty)"
    by (simp add: ex_world_def defer_recover_def w_Write_def emit_def client_view_def
        fresh_response_def)
  have cb: "body (client_view (trace (w_Write ''OK'' (defer_recover ex_world)))) = ''OK''"
    by (simp add: ex_world_def defer_recover_def w_Write_def emit_def client_view_def
        fresh_response_def)
  note b = recoverPanic_intercepts [where h = ex_write_panic and r = ex_request and w = ex_world
      and app = ex_app]
  from b have b1: "snd (recoverPanic ex_app ex_write_panic ex_request ex_world) = None" by blast
  from b q c
  have b2: "sent (client_view (trace (fst (recoverPanic ex_app ex_write_panic ex_request ex_world))))
              = Some (200, Map.empty)"
    and b3: "body (client_view (trace (fst (recoverPanic ex_app ex_write_panic ex_request ex_world))))
              = body (client_view (trace (w_Write ''OK'' (defer_recover ex_world))))
                @ ''Internal Server Error'' @ [CHR 0x0A]"
    by blast+
  have g: "ex_background ex_request (defer_recover ex_world)
             = (w_Write ''OK'' ((defer_recover ex_world)
                  \<lparr>goroutine_panics := goroutine_panics (defer_recover ex_world) @ [''background failure'']\<rparr>),
                None)"
    by (simp add: ex_background_def)
  note d = recoverPanic_intercepts [where h = ex_background and r = ex_request and w = ex_world
      and app = ex_app]
  from d g have d1: "recoverPanic ex_app ex_background ex_request ex_world
       = ex_background ex_request (defer_recover ex_world)" by metis
  from d have "goroutine_panics (fst (recoverPanic ex_app ex_background ex_request ex_world))
       = goroutine_panics (fst (ex_background ex_request (defer_recover ex_world)))" by blast
  then have d2: "goroutine_panics (fst (recoverPanic ex_app ex_background ex_request ex_world))
       = [''background failure'']"
    by (simp add: ex_background_def ex_world_def defer_recover_def w_Write_def emit_def)
  from b3 cb have b3': "body (client_view (trace (fst (recoverPanic ex_app ex_write_panic ex_request ex_world))))
       = ''OK'' @ ''Internal Server Error'' @ [CHR 0x0A]" by simp
  from a1 a2 b1 b2 b3' d1 d2 show ?thesis by blast
qed

text \<open>
  Claim C5 as first stated, that every panic while handling a request ends in a reply
  with status 500 and the header \<^verbatim>\<open>Connection: close\<close>, fails for a handler that writes its
  answer and then panics: the client has status 200 and no \<^verbatim>\<open>Connection\<close> header, and the
  fixed text follows the answer in the body.
\<close>

theorem recoverPanic_after_write_counterexample:
  "snd (ex_write_panic ex_request (defer_recover ex_world)) = Some ''index out of range''
   \<and> status_code (client_view (trace (fst (recoverPanic ex_app ex_write_panic ex_request ex_world))))
       = Some 200
   \<and> sent_header (client_view (trace (fst (recoverPanic ex_app ex_write_panic ex_request ex_world))))
       ''Connection'' = None
   \<and> body (client_view (trace (fst (recoverPanic ex_app ex_write_panic ex_request ex_world))))
       = ''OK'' @ ''Internal Server Error'' @ [CHR 0x0A]"
  by (simp add: recoverPanic_def ex_write_panic_def ex_world_def defer_recover_def w_Write_def
      emit_def Header_Set_def serverError_trace client_view_def fresh_response_def
      status_code_def sent_header_def StatusText_def)

section \<open>The handler of a single snippet\<close>

text \<open>
  Claim C10. When the path value \<^verbatim>\<open>id\<close> is not accepted by \<^verbatim>\<open>strconv.Atoi\<close>, or is a number
  below 1, \<^verbatim>\<open>snippetView\<close> replies as \<^verbatim>\<open>http.NotFound\<close> does, with status 404, and returns;
  the store is untouched, so that no statement has been sent and \<^verbatim>\<open>Get\<close> has not been
  called.
\<close>

theorem snippetView_bad_id:
  assumes "case Atoi (PathValue r ''id'') of Inl err \<Rightarrow> True | Inr n \<Rightarrow> n < 1"
  shows "snippetView Sprintf app r w = (http_NotFound r w, None)
       \<and> db (fst (snippetView Sprintf app r w)) = db w
       \<and> statements (db (fst (snippetView Sprintf app r w))) = statements (db w)
       \<and> trace (fst (snippetView Sprintf app r w)) =
           trace w @ [SetHeader ''Content-Type'' ''text/plain; charset=utf-8'',
                      SetHeader ''X-Content-Type-Options'' ''nosniff'',
                      WriteHeader 404, Write (''404 page not found'' @ [CHR 0x0A])]
       \<and> (sent (client_view (trace w)) = None \<longrightarrow>
            status_code (client_view (trace (fst (snippetView Sprintf app r w)))) = Some 404)"
proof -
  have e: "snippetView Sprintf app r w = (http_NotFound r w, None)"
    using assms by (auto simp add: snippetView_def split: sum.splits)
  have t: "http_NotFound r w =
             w\<lparr>trace := trace w @ [SetHeader ''Content-Type'' ''text/plain; charset=utf-8'',
                                    SetHeader ''X-Content-Type-Options'' ''nosniff'',
                                    WriteHeader 404, Write (''404 page not found'' @ [CHR 0x0A])]\<rparr>"
    by (simp add: http_NotFound_def http_Error_trace)
  show ?thesis
    unfolding e t by (simp add: client_view_append status_code_def)
qed

theorem snippetView_bad_id_witness:
  "status_code (client_view (trace (fst (snippetView Title ex_app
       (ex_request\<lparr>path_values := [(''id'', ''abc'')]\<rparr>) ex_world)))) = Some 404
   \<and> statements (db (fst (snippetView Title ex_app
       (ex_request\<lparr>path_values := [(''id'', ''abc'')]\<rparr>) ex_world))) = 0
   \<and> status_code (client_view (trace (fst (snippetView Title ex_app
       (ex_request\<lparr>path_values := [(''id'', ''0'')]\<rparr>) ex_world)))) = Some 404
   \<and> statements (db (fst (snippetView Title ex_app
       (ex_request\<lparr>path_values := [(''id'', ''0'')]\<rparr>) ex_world))) = 0"
proof -
  have a: "case Atoi (PathValue (ex_request\<lparr>path_values := [(''id'', ''abc'')]\<rparr>) ''id'') of
             Inl err \<Rightarrow> True | Inr n \<Rightarrow> n < 1"
    by (simp add: PathValue_def Atoi_def is_digit_def digits_value_def)
  have z: "case Atoi (PathValue (ex_request\<lparr>path_values := [(''id'', ''0'')]\<rparr>) ''id'') of
             Inl err \<Rightarrow> True | Inr n \<Rightarrow> n < 1"
    by (simp add: PathValue_def Atoi_def is_digit_def digits_value_def)
  have u: "sent (client_view (trace ex_world)) = None"
    by (simp add: ex_world_def client_view_def fresh_response_def)
  have s: "statements (db ex_world) = 0" by (simp add: ex_world_def ex_store_def)
  from snippetView_bad_id [OF a, of Title ex_app ex_world]
  have a1: "statements (db (fst (snippetView Title ex_app
              (ex_request\<lparr>path_values := [(''id'', ''abc'')]\<rparr>) ex_world))) = statements (db ex_world)"
    and a2: "sent (client_view (trace ex_world)) = None \<longrightarrow>
             status_code (client_view (trace (fst (snippetView Title ex_app
               (ex_request\<lparr>path_values := [(''id'', ''abc'')]\<rparr>) ex_world)))) = Some 404"
    by blast+
  from snippetView_bad_id [OF z, of Title ex_app ex_world]
  have z1: "statements (db (fst (snippetView Title ex_app
              (ex_request\<lparr>path_values := [(''id'', ''0'')]\<rparr>) ex_world))) = statements (db ex_world)"
    and z2: "sent (client_view (trace ex_world)) = None \<longrightarrow>
             status_code (client_view (trace (fst (snippetView Title ex_app
               (ex_request\<lparr>path_values := [(''id'', ''0'')]\<rparr>) ex_world)))) = Some 404"
    by blast+
  from a1 a2 z1 z2 u s show ?thesis by simp
qed

end
